theory Spec2Isabelle
  imports Main
begin

section \<open>Python values used by the converter\<close>

text \<open>
  The exceptions the converter can raise. \<open>ValueError\<close> is raised by the converter
  itself, \<open>KeyError\<close> by a subscript on a missing key, \<open>AttributeError\<close> by the
  lookup of an attribute that the object does not have, \<open>TypeError\<close> by an
  operation on a value of the wrong type. \<open>CollaboratorError\<close> stands for whatever a
  collaborator (the fetch service, a custom transformer, the image encoder) raises.
\<close>

datatype error =
    ValueError string
  | KeyError string
  | AttributeError string
  | TypeError string
  | CollaboratorError string

text \<open>Sequencing of calls that may raise: the first exception aborts the rest.\<close>

definition bind :: "error + 'a \<Rightarrow> ('a \<Rightarrow> error + 'b) \<Rightarrow> error + 'b" where
  "bind m f = (case m of Inl e \<Rightarrow> Inl e | Inr x \<Rightarrow> f x)"

definition NL :: string where
  "NL = [CHR 0x0A]"

definition TAB :: string where
  "TAB = [CHR 0x09]"

subsection \<open>Dictionaries from strings to strings\<close>

text \<open>
  A Python \<open>Dict[str, str]\<close> keeps its keys in insertion order; it is modelled as an
  association list without duplicate keys. \<open>dict_get d k v\<close> is \<open>d.get(k, v)\<close>,
  \<open>dict_set d k v\<close> is \<open>d[k] = v\<close> (an existing key keeps its place),
  \<open>dict_has d k\<close> is \<open>k in d\<close>, \<open>dict_update d e\<close> is \<open>d.update(e)\<close>.
\<close>

type_synonym doc_map = "(string \<times> string) list"

definition dict_get :: "doc_map \<Rightarrow> string \<Rightarrow> string \<Rightarrow> string" where
  "dict_get d k dflt = (case map_of d k of None \<Rightarrow> dflt | Some v \<Rightarrow> v)"

fun dict_set :: "doc_map \<Rightarrow> string \<Rightarrow> string \<Rightarrow> doc_map" where
  "dict_set [] k v = [(k, v)]"
| "dict_set ((k', v') # d) k v = (if k' = k then (k, v) # d else (k', v') # dict_set d k v)"

definition dict_has :: "doc_map \<Rightarrow> string \<Rightarrow> bool" where
  "dict_has d k = (map_of d k \<noteq> None)"

definition dict_update :: "doc_map \<Rightarrow> doc_map \<Rightarrow> doc_map" where
  "dict_update d e = foldl (\<lambda>acc kv. dict_set acc (fst kv) (snd kv)) d e"

text \<open>\<open>d[k] = d.get(k, "")\<close> followed by \<open>d[k] += s\<close>.\<close>

definition dict_append :: "doc_map \<Rightarrow> string \<Rightarrow> string \<Rightarrow> doc_map" where
  "dict_append d k s = dict_set d k (dict_get d k [] @ s)"

subsection \<open>String methods\<close>

text \<open>
  The characters \<open>str.strip()\<close> removes and \<open>str.isspace()\<close> accepts, among the
  code points below 256.
\<close>

definition is_space :: "char \<Rightarrow> bool" where
  "is_space c = (c \<in> {CHR 0x09, CHR 0x0A, CHR 0x0B, CHR 0x0C, CHR 0x0D,
                      CHR 0x1C, CHR 0x1D, CHR 0x1E, CHR 0x1F, CHR 0x20, CHR 0x85, CHR 0xA0})"

definition lstrip :: "string \<Rightarrow> string" where
  "lstrip s = dropWhile is_space s"

definition rstrip :: "string \<Rightarrow> string" where
  "rstrip s = rev (dropWhile is_space (rev s))"

definition strip :: "string \<Rightarrow> string" where
  "strip s = rstrip (lstrip s)"

text \<open>\<open>s.split("\n")\<close>: the pieces between newlines, at least one piece.\<close>

fun split_lines :: "string \<Rightarrow> string list" where
  "split_lines [] = [[]]"
| "split_lines (c # cs) =
     (if c = CHR 0x0A then [] # split_lines cs
      else (case split_lines cs of l # ls \<Rightarrow> (c # l) # ls | [] \<Rightarrow> [[c]]))"

text \<open>\<open>sep.join(xs)\<close>.\<close>

fun join :: "string \<Rightarrow> string list \<Rightarrow> string" where
  "join sep [] = []"
| "join sep [x] = x"
| "join sep (x # y # ys) = x @ sep @ join sep (y # ys)"

section \<open>Rendered nodes\<close>

text \<open>
  \<open>block_to_markdown\<close> is declared to return a string, but for a synced block it
  returns what \<open>handle_synced_block\<close> returns, which on its main path is the
  dictionary built by \<open>to_markdown_string\<close>. A fragment is therefore either a string
  or a dictionary. \<open>truthy\<close> is Python's truth value of a fragment, \<open>frag_text\<close> the
  string a fragment is where the assembler needs one; no text is given to a dictionary.
\<close>

datatype fragment = FStr string | FMap doc_map

fun truthy :: "fragment \<Rightarrow> bool" where
  "truthy (FStr s) = (s \<noteq> [])"
| "truthy (FMap m) = (m \<noteq> [])"

fun frag_text :: "fragment \<Rightarrow> string" where
  "frag_text (FStr s) = s"
| "frag_text (FMap m) = []"

text \<open>
  An \<open>MdBlock\<close>: the dictionary with keys \<open>type\<close>, \<open>block_id\<close>, \<open>parent\<close> (the
  node's own fragment) and \<open>children\<close> that \<open>blocks_to_markdown\<close> builds.
\<close>

datatype md_block =
  MdBlock (md_type: string) (md_block_id: string) (md_parent: fragment) (md_children: "md_block list")

section \<open>Collaborators and configuration\<close>

text \<open>
  Modelled from the spec: the formatter collaborator, the module \<open>utils/md.py\<close>, is
  not part of the sources at hand. The converter takes its functions as parameters:
  pure functions from plain values to Markdown fragments. \<open>md_image\<close> may call the
  image encoder and so may raise.
\<close>

record md_module =
  md_inline_equation :: "string \<Rightarrow> string"
  md_link :: "string \<Rightarrow> string \<Rightarrow> string"
  md_code_block :: "string \<Rightarrow> string \<Rightarrow> string"
  md_equation :: "string \<Rightarrow> string"
  md_divider :: string
  md_image :: "string \<Rightarrow> string \<Rightarrow> bool \<Rightarrow> error + string"
  md_table :: "string list list \<Rightarrow> string"
  md_heading2 :: "string \<Rightarrow> string"
  md_heading3 :: "string \<Rightarrow> string"
  md_toggle :: "string \<Rightarrow> string \<Rightarrow> string"
  md_add_tab_space :: "string \<Rightarrow> nat \<Rightarrow> string"

text \<open>
  \<open>ConfigurationOptions\<close>: the three options the converter reads. The options
  \<open>api_retry_attempts\<close>, \<open>api_rate_limit_delay\<close> and \<open>max_concurrent_requests\<close>
  govern the fetch collaborator only.
\<close>

record config =
  separate_child_page :: bool
  convert_images_to_base64 :: bool
  parse_child_pages :: bool

section \<open>The tree assembler: \<open>to_markdown_string\<close>\<close>

text \<open>
  The body of the \<open>for\<close> loop of \<open>to_markdown_string\<close> has two parts. The first
  (``process parent blocks'') appends the node's own fragment to the current document.
\<close>

definition own_fragment_phase ::
  "md_module \<Rightarrow> string \<Rightarrow> fragment \<Rightarrow> string \<Rightarrow> nat \<Rightarrow> doc_map \<Rightarrow> doc_map" where
  "own_fragment_phase md ty parent page_identifier nesting_level md_output =
     (if truthy parent \<and> ty \<notin> {''toggle'', ''child_page''} then
        (if ty \<notin> {''to_do'', ''bulleted_list_item'', ''numbered_list_item'', ''quote''} then
           dict_append md_output page_identifier
             (NL @ md_add_tab_space md (frag_text parent) nesting_level @ NL @ NL)
         else
           dict_append md_output page_identifier
             (md_add_tab_space md (frag_text parent) nesting_level @ NL))
      else md_output)"

text \<open>
  The second part (``process child blocks'') runs when the node has children. Every
  branch but the one of a callout starts with one recursive call of
  \<open>to_markdown_string\<close> on the children; \<open>child_call\<close> gives the page identifier and the
  nesting level that the branch of the node's type passes to it (an argument the branch
  leaves out takes its default, \<open>"parent"\<close> or \<open>0\<close>).
\<close>

definition child_call :: "string \<Rightarrow> fragment \<Rightarrow> string \<Rightarrow> nat \<Rightarrow> string \<times> nat" where
  "child_call ty parent page_identifier nesting_level =
     (if ty \<in> {''synced_block'', ''column_list'', ''column''} then (page_identifier, 0)
      else if ty = ''child_page'' then (frag_text parent, 0)
      else if ty = ''toggle'' then (''parent'', 0)
      else if ty = ''quote'' then (page_identifier, nesting_level)
      else (page_identifier, nesting_level + 1))"

text \<open>The reflow of a quote's children: every line gets a quote marker.\<close>

definition quote_lines :: "string \<Rightarrow> string" where
  "quote_lines s =
     strip (join NL (map (\<lambda>line. if strip line \<noteq> [] then ''> '' @ line else ''>'')
                         (split_lines s)))"

text \<open>
  What each branch does with \<open>md_str\<close>, the result of its recursive call, starting from
  \<open>out1\<close>, the dictionary \<open>md_output\<close> after the first part.
\<close>

definition children_phase ::
  "md_module \<Rightarrow> config \<Rightarrow> string \<Rightarrow> fragment \<Rightarrow> string \<Rightarrow> doc_map \<Rightarrow> doc_map \<Rightarrow> doc_map" where
  "children_phase md cfg ty parent page_identifier out1 md_str =
     (if ty \<in> {''synced_block'', ''column_list'', ''column''} then
        foldl (\<lambda>acc kv. dict_append acc (fst kv) (snd kv))
          (dict_append out1 page_identifier []) md_str
      else if ty = ''child_page'' then
        (let child_page_title = frag_text parent
         in if separate_child_page cfg then dict_update out1 md_str
            else
              (let out' = dict_append out1 page_identifier []
               in if dict_has md_str child_page_title then
                    dict_append out' page_identifier
                      (NL @ child_page_title @ NL @ dict_get md_str child_page_title [])
                  else out'))
      else if ty = ''toggle'' then
        dict_append out1 page_identifier
          (md_toggle md (frag_text parent) (dict_get md_str ''parent'' []))
      else if ty = ''quote'' then
        (let formatted_content = quote_lines (dict_get md_str ''parent'' []);
             out' = dict_append out1 page_identifier [];
             out'' =
               (if page_identifier \<noteq> ''parent'' \<and> dict_has md_str ''parent'' then
                  dict_append out' page_identifier formatted_content
                else if dict_has md_str page_identifier then
                  dict_append out' page_identifier formatted_content
                else out')
         in dict_append out'' page_identifier NL)
      else
        (let out' = dict_append out1 page_identifier []
         in if page_identifier \<noteq> ''parent'' \<and> dict_has md_str ''parent'' then
              dict_append out' page_identifier (dict_get md_str ''parent'' [])
            else if dict_has md_str page_identifier then
              dict_append out' page_identifier (dict_get md_str page_identifier [])
            else out'))"

text \<open>
  \<open>to_markdown_loop\<close> is the \<open>for\<close> loop, with the dictionary \<open>md_output\<close> as its
  state; a recursive call of \<open>to_markdown_string\<close> runs the loop from the empty
  dictionary. A callout's children are skipped (``already processed'').
\<close>

fun to_markdown_loop ::
  "md_module \<Rightarrow> config \<Rightarrow> md_block list \<Rightarrow> string \<Rightarrow> nat \<Rightarrow> doc_map \<Rightarrow> doc_map" where
  "to_markdown_loop md cfg [] page_identifier nesting_level md_output = md_output"
| "to_markdown_loop md cfg (MdBlock ty bid parent children # rest)
       page_identifier nesting_level md_output =
     to_markdown_loop md cfg rest page_identifier nesting_level
       (if children \<noteq> [] \<and> ty \<noteq> ''callout'' then
          children_phase md cfg ty parent page_identifier
            (own_fragment_phase md ty parent page_identifier nesting_level md_output)
            (to_markdown_loop md cfg children
               (fst (child_call ty parent page_identifier nesting_level))
               (snd (child_call ty parent page_identifier nesting_level)) [])
        else own_fragment_phase md ty parent page_identifier nesting_level md_output)"

definition to_markdown_string ::
  "md_module \<Rightarrow> config \<Rightarrow> md_block list \<Rightarrow> string \<Rightarrow> nat \<Rightarrow> doc_map" where
  "to_markdown_string md cfg md_blocks page_identifier nesting_level =
     to_markdown_loop md cfg md_blocks page_identifier nesting_level []"

section \<open>Raw blocks\<close>

text \<open>
  Modelled from the spec: the declarations of \<open>utils/types.py\<close> are not part of the
  sources at hand. The style flags of a rich-text span:
\<close>

record annotations =
  bold :: bool
  italic :: bool
  strikethrough :: bool
  underline :: bool
  inline_code :: bool

text \<open>
  A rich-text span, with the keys the renderer reads: \<open>content["type"]\<close>,
  \<open>content["equation"]["expression"]\<close>, \<open>plain_text\<close>, \<open>annotations\<close>, \<open>href\<close>.
  An optional field is \<open>None\<close> when the key is absent.
\<close>

record span =
  span_type :: string
  span_expression :: "string option"
  plain_text :: "string option"
  span_annotations :: "annotations option"
  href :: "string option"

text \<open>
  A block as the fetch collaborator delivers it: a dictionary with the keys \<open>type\<close>,
  \<open>id\<close>, \<open>has_children\<close> and, under the name of its type, its payload. The record
  has one field for every path the converter reads; the fields a block's type does not
  use are not read. \<open>synced_from\<close> is the \<open>block_id\<close> of
  \<open>block["synced_block"]["synced_from"]\<close>, \<open>None\<close> when there is no source reference.
\<close>

record block =
  block_type :: "string option"
  block_id :: string
  has_children :: bool
  rich_text :: "span list"
  language :: "string option"
  expression :: "string option"
  caption :: "span list"
  file_kind :: string
  file_url :: "string option"
  external_url :: "string option"
  url :: "string option"
  table_rows :: "span list list list"
  title :: "string option"
  synced_from :: "string option"

text \<open>
  The result of a custom transformer: a string, a boolean or \<open>None\<close>. The renderer
  calls the transformer and awaits what the call returns. A call returns either such a
  result directly (a plain function, the type the registry is declared with) or an
  awaitable (the call of a coroutine function) which, awaited, gives a result or
  raises; the call itself may raise as well. \<open>await\<close> is the \<open>await\<close> expression: a
  string, a boolean and \<open>None\<close> are not awaitable and raise \<open>TypeError\<close>.
\<close>

datatype transformer_result = RStr string | RBool bool | RNone

datatype call_value = Plain transformer_result | Awaitable "error + transformer_result"

type_synonym transformer = "block \<Rightarrow> error + call_value"

definition await :: "call_value \<Rightarrow> error + transformer_result" where
  "await v =
     (case v of
        Plain r \<Rightarrow> Inl (TypeError ''object can not be used in await expression'')
      | Awaitable r \<Rightarrow> r)"

text \<open>
  The converter object: its configuration, its registry of custom transformers (a key
  may be stored with the value \<open>None\<close>) and its collaborators. Modelled from the spec:
  the fetch collaborator \<open>notion.get_block_children\<close> of \<open>utils/notion.py\<close> is not
  part of the sources at hand; given a block identifier and an optional page limit it
  returns the block's direct children, or raises.
\<close>

record converter =
  config :: config
  custom_transformers :: "string \<Rightarrow> transformer option option"
  md :: md_module
  get_block_children :: "string \<Rightarrow> nat option \<Rightarrow> error + block list"

section \<open>The block renderer: \<open>block_to_markdown\<close>\<close>

definition VALID_BLOCK_TYPES :: "string list" where
  "VALID_BLOCK_TYPES =
     [''paragraph'', ''heading_1'', ''heading_2'', ''heading_3'',
      ''bulleted_list_item'', ''numbered_list_item'', ''quote'',
      ''to_do'', ''toggle'', ''code'', ''image'', ''video'', ''file'',
      ''pdf'', ''bookmark'', ''callout'', ''synced_block'', ''table'',
      ''column_list'', ''column'', ''link_preview'', ''link_to_page'',
      ''equation'', ''divider'', ''table_of_contents'', ''child_page'',
      ''child_database'', ''breadcrumb'', ''template'', ''unsupported'',
      ''audio'', ''embed'']"

text \<open>
  The renderer calls \<open>self.annotate_plain_text(plain_text, annotations)\<close>. The class
  defines no method of that name, it has no base class, and its constructor sets no
  such attribute: the lookup raises \<open>AttributeError\<close>.
\<close>

definition annotate_plain_text :: "string \<Rightarrow> annotations option \<Rightarrow> error + string" where
  "annotate_plain_text text annots = Inl (AttributeError ''annotate_plain_text'')"

text \<open>\<open>d.get(k, v)\<close> on an optional field, and \<open>d[k]\<close>, which raises when it is absent.\<close>

definition get_or :: "'a option \<Rightarrow> 'a \<Rightarrow> 'a" where
  "get_or x dflt = (case x of None \<Rightarrow> dflt | Some v \<Rightarrow> v)"

definition subscript :: "string \<Rightarrow> 'a option \<Rightarrow> error + 'a" where
  "subscript k x = (case x of None \<Rightarrow> Inl (KeyError k) | Some v \<Rightarrow> Inr v)"

text \<open>The body of the loop over the spans of a text block, and the loop.\<close>

definition render_span :: "md_module \<Rightarrow> span \<Rightarrow> error + string" where
  "render_span m content =
     (if span_type content = ''equation'' then
        bind (subscript ''expression'' (span_expression content))
          (\<lambda>e. Inr (md_inline_equation m e))
      else
        bind (annotate_plain_text (get_or (plain_text content) []) (span_annotations content))
          (\<lambda>text. Inr (if get_or (href content) [] \<noteq> []
                         then md_link m text (get_or (href content) []) else text)))"

fun render_spans :: "md_module \<Rightarrow> span list \<Rightarrow> string \<Rightarrow> error + string" where
  "render_spans m [] parsed_data = Inr parsed_data"
| "render_spans m (content # rest) parsed_data =
     bind (render_span m content) (\<lambda>text. render_spans m rest (parsed_data @ text))"

text \<open>\<open>"".join(t["plain_text"] for t in spans)\<close>.\<close>

fun plain_texts :: "span list \<Rightarrow> error + string" where
  "plain_texts [] = Inr []"
| "plain_texts (t # ts) =
     bind (subscript ''plain_text'' (plain_text t)) (\<lambda>s. bind (plain_texts ts) (\<lambda>r. Inr (s @ r)))"

fun map_result :: "('a \<Rightarrow> error + 'b) \<Rightarrow> 'a list \<Rightarrow> error + 'b list" where
  "map_result f [] = Inr []"
| "map_result f (x # xs) = bind (f x) (\<lambda>y. bind (map_result f xs) (\<lambda>ys. Inr (y # ys)))"

text \<open>\<open>x or dflt\<close> on strings.\<close>

definition str_or :: "string \<Rightarrow> string \<Rightarrow> string" where
  "str_or x dflt = (if x \<noteq> [] then x else dflt)"

text \<open>
  \<open>handle_synced_block\<close> passes the raw blocks it fetched to \<open>to_markdown_string\<close>,
  which reads the keys \<open>parent\<close> and \<open>children\<close> with \<open>get\<close>. A raw block has neither
  key, so both reads give \<open>None\<close>, which is as false as the empty string and the empty
  list; the key \<open>type\<close> is read only after one of them was true. \<open>raw_as_md\<close> is the
  raw block as \<open>to_markdown_string\<close> sees it.
\<close>

definition raw_as_md :: "block \<Rightarrow> md_block" where
  "raw_as_md b = MdBlock (get_or (block_type b) []) (block_id b) (FStr []) []"

text \<open>
  \<open>handle_synced_block\<close>. The two warnings it logs are not modelled. Its main path
  returns the dictionary that \<open>to_markdown_string\<close> returns.
\<close>

definition handle_synced_block :: "converter \<Rightarrow> block \<Rightarrow> nat \<Rightarrow> error + fragment" where
  "handle_synced_block self b depth =
     (if depth > 3 then Inr (FStr [])
      else if get_or (synced_from b) [] = [] then Inr (FStr [])
      else
        bind (get_block_children self (get_or (synced_from b) []) None)
          (\<lambda>original_blocks.
             Inr (FMap (to_markdown_string (md self) (config self)
                          (map raw_as_md original_blocks) ''parent'' (depth + 1)))))"

text \<open>
  The default rendering of a block of type \<open>ty\<close>: the part of \<open>block_to_markdown\<close>
  after the look-up of a custom transformer.
\<close>

definition default_render :: "converter \<Rightarrow> block \<Rightarrow> string \<Rightarrow> error + fragment" where
  "default_render self b ty =
     bind
       (if ty \<in> {''paragraph'', ''heading_1'', ''heading_2'', ''heading_3'',
                  ''bulleted_list_item'', ''numbered_list_item'', ''quote'',
                  ''to_do'', ''toggle'', ''callout''}
        then render_spans (md self) (rich_text b) [] else Inr [])
       (\<lambda>parsed_data.
          if ty = ''code'' then
            Inr (FStr (md_code_block (md self) parsed_data (get_or (language b) [])))
          else if ty = ''equation'' then
            bind (subscript ''expression'' (expression b))
              (\<lambda>e. Inr (FStr (md_equation (md self) e)))
          else if ty = ''divider'' then Inr (FStr (md_divider (md self)))
          else if ty = ''image'' then
            bind (plain_texts (caption b))
              (\<lambda>cap. bind (if file_kind b = ''file'' then subscript ''url'' (file_url b)
                            else subscript ''url'' (external_url b))
                 (\<lambda>u. bind (md_image (md self) (str_or cap ''image'') u
                               (convert_images_to_base64 (config self)))
                    (\<lambda>s. Inr (FStr s))))
          else if ty = ''table'' then
            bind (map_result (map_result plain_texts) (table_rows b))
              (\<lambda>rows. Inr (FStr (md_table (md self) rows)))
          else if ty = ''child_page'' then
            (if parse_child_pages (config self) then
               Inr (FStr (if \<not> separate_child_page (config self)
                          then md_heading2 (md self) (get_or (title b) [])
                          else get_or (title b) []))
             else Inr (FStr parsed_data))
          else if ty = ''synced_block'' then handle_synced_block self b 0
          else if ty = ''child_database'' then
            (if \<not> parse_child_pages (config self) then Inr (FStr [])
             else Inr (FStr (md_heading3 (md self) (get_or (title b) ''Child Database''))))
          else if ty = ''table_of_contents'' then Inr (FStr (md_divider (md self)))
          else if ty = ''audio'' then
            bind (plain_texts (caption b))
              (\<lambda>cap. Inr (FStr (md_link (md self) (str_or cap ''audio'') (get_or (file_url b) []))))
          else if ty = ''embed'' then
            bind (plain_texts (caption b))
              (\<lambda>cap. Inr (FStr (md_link (md self) (str_or cap ''embed'') (get_or (url b) []))))
          else if ty = ''link_preview'' then
            Inr (FStr (md_link (md self) ''link_preview'' (get_or (url b) [])))
          else if ty = ''breadcrumb'' then Inr (FStr (md_divider (md self)))
          else Inr (FStr parsed_data))"

text \<open>
  \<open>block_to_markdown\<close>: a block without the key \<open>type\<close> gives the empty string, a
  type outside \<open>VALID_BLOCK_TYPES\<close> raises, a custom transformer stored for the type and
  not \<open>None\<close> is called, what it returns is awaited, and the outcome replaces the
  default rendering.
\<close>

definition block_to_markdown :: "converter \<Rightarrow> block \<Rightarrow> error + fragment" where
  "block_to_markdown self b =
     (case block_type b of
        None \<Rightarrow> Inr (FStr [])
      | Some ty \<Rightarrow>
          if ty \<notin> set VALID_BLOCK_TYPES then Inl (ValueError (''Invalid block type: '' @ ty))
          else
            (case custom_transformers self ty of
               Some (Some f) \<Rightarrow>
                 bind (f b)
                   (\<lambda>returned.
                      bind (await returned)
                        (\<lambda>result. case result of RStr s \<Rightarrow> Inr (FStr s) | _ \<Rightarrow> Inr (FStr [])))
             | _ \<Rightarrow> default_render self b ty))"

section \<open>The tree builder: \<open>blocks_to_markdown\<close>\<close>

text \<open>The blocks the loop passes over with \<open>continue\<close>.\<close>

definition skipped :: "config \<Rightarrow> string \<Rightarrow> bool" where
  "skipped cfg ty = (ty = ''unsupported'' \<or> (ty = ''child_page'' \<and> \<not> parse_child_pages cfg))"

text \<open>The identifier whose children are fetched for a block with children.\<close>

definition fetch_target :: "block \<Rightarrow> string \<Rightarrow> string" where
  "fetch_target b ty =
     (if ty = ''synced_block'' \<and> synced_from b \<noteq> None then get_or (synced_from b) []
      else block_id b)"

text \<open>
  One block of the loop, up to the recursive call: the fetch of the children (for a
  block with children), the rendering of the own fragment, and the node that is
  appended. The second component is the list of fetched children when the loop goes on
  to call \<open>blocks_to_markdown\<close> on them, that is when the block has children and its
  type is not a key of the registry.
\<close>

definition build_node ::
  "converter \<Rightarrow> block \<Rightarrow> string \<Rightarrow> nat option \<Rightarrow> error + (md_block \<times> block list option)" where
  "build_node self b ty total_pages =
     (if has_children b then
        bind (get_block_children self (fetch_target b ty) total_pages)
          (\<lambda>child_blocks.
             bind (block_to_markdown self b)
               (\<lambda>frag. Inr (MdBlock ty (block_id b) frag [],
                             if custom_transformers self ty = None then Some child_blocks
                             else None)))
      else
        bind (block_to_markdown self b) (\<lambda>frag. Inr (MdBlock ty (block_id b) frag [], None)))"

text \<open>
  \<open>blocks_to_markdown\<close> and its \<open>for\<close> loop. The recursion follows what the fetch
  collaborator returns and need not end, so it is bounded by a fuel that each recursive
  call uses up; \<open>None\<close> is the outcome of a run whose fuel is exhausted.

  The recursive call receives the \<open>children\<close> list of the node just appended as its
  accumulator. That list is empty, and \<open>md_blocks or []\<close> then binds the callee's
  accumulator to a fresh list: the nodes the callee appends do not reach the node's
  \<open>children\<close>, and the caller drops the list the callee returns. Of the recursive call
  only its exceptions (and its not returning) are left.
\<close>

fun blocks_to_markdown ::
     "converter \<Rightarrow> nat \<Rightarrow> block list \<Rightarrow> nat option \<Rightarrow> md_block list \<Rightarrow> (error + md_block list) option"
  and blocks_loop ::
     "converter \<Rightarrow> nat \<Rightarrow> block list \<Rightarrow> nat option \<Rightarrow> md_block list \<Rightarrow> (error + md_block list) option"
  where
  "blocks_to_markdown self 0 blocks total_pages md_blocks = None"
| "blocks_to_markdown self (Suc n) blocks total_pages md_blocks =
     (if blocks = [] then Some (Inr md_blocks)
      else blocks_loop self n blocks total_pages md_blocks)"
| "blocks_loop self n [] total_pages md_blocks = Some (Inr md_blocks)"
| "blocks_loop self n (b # rest) total_pages md_blocks =
     (case block_type b of
        None \<Rightarrow> Some (Inl (KeyError ''type''))
      | Some ty \<Rightarrow>
          if skipped (config self) ty then blocks_loop self n rest total_pages md_blocks
          else
            (case build_node self b ty total_pages of
               Inl e \<Rightarrow> Some (Inl e)
             | Inr (node, None) \<Rightarrow> blocks_loop self n rest total_pages (md_blocks @ [node])
             | Inr (node, Some child_blocks) \<Rightarrow>
                 (case blocks_to_markdown self n child_blocks total_pages [] of
                    None \<Rightarrow> None
                  | Some (Inl e) \<Rightarrow> Some (Inl e)
                  | Some (Inr discarded) \<Rightarrow>
                      blocks_loop self n rest total_pages (md_blocks @ [node]))))"

text \<open>\<open>page_to_markdown\<close>; the constructor has refused a missing client.\<close>

definition page_to_markdown ::
  "converter \<Rightarrow> nat \<Rightarrow> string \<Rightarrow> nat option \<Rightarrow> (error + md_block list) option" where
  "page_to_markdown self fuel page_id total_pages =
     (case get_block_children self page_id total_pages of
        Inl e \<Rightarrow> Some (Inl e)
      | Inr blocks \<Rightarrow> blocks_to_markdown self fuel blocks None [])"

section \<open>The converter after construction, and concrete inputs\<close>

text \<open>The default configuration of the constructor.\<close>

definition default_config :: config where
  "default_config =
     \<lparr>separate_child_page = False, convert_images_to_base64 = False, parse_child_pages = True\<rparr>"

text \<open>
  Modelled from the spec: a formatter module, for the evaluation of the converter at
  concrete inputs. The spec names the formatters of \<open>utils/md.py\<close> (heading, link,
  code fence, equations, divider, table, toggle section, image reference, tab-space
  insertion) without fixing their output, except for the divider \<open>---\<close> of its
  example; the usual Markdown forms are taken, and an indentation of one tab for each
  nesting level. The theorems below that speak of a formatter \<open>m\<close> hold for every
  formatter module.
\<close>

definition reference_md :: md_module where
  "reference_md =
     \<lparr>md_inline_equation = (\<lambda>e. ''$'' @ e @ ''$''),
      md_link = (\<lambda>text u. ''['' @ text @ ''](''  @ u @ '')''),
      md_code_block = (\<lambda>text lang. ''```'' @ lang @ NL @ text @ NL @ ''```''),
      md_equation = (\<lambda>e. ''$$'' @ NL @ e @ NL @ ''$$''),
      md_divider = ''---'',
      md_image = (\<lambda>alt u as_base64. Inr (''!['' @ alt @ ''](''  @ u @ '')'')),
      md_table = (\<lambda>rows. join NL (map (\<lambda>cells. ''| '' @ join '' | '' cells @ '' |'') rows)),
      md_heading2 = (\<lambda>text. ''## '' @ text),
      md_heading3 = (\<lambda>text. ''### '' @ text),
      md_toggle = (\<lambda>summary content.
         ''<details><summary>'' @ summary @ ''</summary>'' @ content @ ''</details>''),
      md_add_tab_space = (\<lambda>text n. concat (replicate n TAB) @ text)\<rparr>"

text \<open>
  The converter as the constructor leaves it: the given configuration, an empty
  registry. \<open>set_custom_transformer\<close> stores a transformer (or \<open>None\<close>) for a type.
\<close>

definition new_converter ::
  "config \<Rightarrow> (string \<Rightarrow> nat option \<Rightarrow> error + block list) \<Rightarrow> converter" where
  "new_converter cfg fetch =
     \<lparr>config = cfg, custom_transformers = (\<lambda>ty. None), md = reference_md,
      get_block_children = fetch\<rparr>"

definition set_custom_transformer :: "converter \<Rightarrow> string \<Rightarrow> transformer option \<Rightarrow> converter" where
  "set_custom_transformer self ty transformer =
     self\<lparr>custom_transformers := (custom_transformers self)(ty := Some transformer)\<rparr>"

text \<open>A block of a given type and identifier without children and with an empty payload.\<close>

definition empty_block :: "string \<Rightarrow> string \<Rightarrow> block" where
  "empty_block ty bid =
     \<lparr>block_type = Some ty, block_id = bid, has_children = False, rich_text = [],
      language = None, expression = None, caption = [], file_kind = [], file_url = None,
      external_url = None, url = None, table_rows = [], title = None, synced_from = None\<rparr>"

text \<open>A span of plain text: no link, no equation, no style flag set.\<close>

definition plain_span :: "string \<Rightarrow> span" where
  "plain_span text =
     \<lparr>span_type = ''text'', span_expression = None, plain_text = Some text,
      span_annotations =
        Some \<lparr>bold = False, italic = False, strikethrough = False, underline = False,
              inline_code = False\<rparr>,
      href = None\<rparr>"

text \<open>A fetch collaborator for a page without blocks below the top level.\<close>

definition no_children :: "string \<Rightarrow> nat option \<Rightarrow> error + block list" where
  "no_children bid total_pages = Inr []"


text \<open>A paragraph block with the single plain span \<open>Hello\<close>.\<close>

definition hello_paragraph :: block where
  "hello_paragraph = (empty_block ''paragraph'' ''p1'')\<lparr>rich_text := [plain_span ''Hello'']\<rparr>"

text \<open>
  A synced block \<open>A\<close> whose source reference is \<open>A\<close> itself, and a fetch collaborator
  for which the children of every block are that block again, with children of its own.
\<close>

definition self_synced :: block where
  "self_synced = (empty_block ''synced_block'' ''A'')\<lparr>synced_from := Some ''A''\<rparr>"

definition cyclic_children :: "string \<Rightarrow> nat option \<Rightarrow> error + block list" where
  "cyclic_children bid total_pages = Inr [self_synced\<lparr>has_children := True\<rparr>]"

text \<open>Rendered nodes for the examples: a leaf paragraph, and a node with one leaf paragraph below it.\<close>

definition leaf_paragraph :: "string \<Rightarrow> md_block" where
  "leaf_paragraph text = MdBlock ''paragraph'' ''p'' (FStr text) []"

definition node_over_paragraph :: "string \<Rightarrow> string \<Rightarrow> string \<Rightarrow> md_block" where
  "node_over_paragraph ty own text = MdBlock ty ''n'' (FStr own) [leaf_paragraph text]"

definition separating_config :: config where
  "separating_config = default_config\<lparr>separate_child_page := True\<rparr>"

text \<open>The rendered nodes of a page with the paragraph \<open>Hello\<close> and a divider.\<close>

definition hello_and_divider :: "md_block list" where
  "hello_and_divider =
     [MdBlock ''paragraph'' ''p1'' (FStr ''Hello'') [], MdBlock ''divider'' ''d1'' (FStr ''---'') []]"

text \<open>
  A block whose type is outside the enumeration; a coroutine transformer, whose call
  returns an awaitable with a given result; and a plain transformer, whose call returns
  the result itself.
\<close>

definition widget_block :: block where
  "widget_block = empty_block ''widget'' ''w1''"

definition async_transformer :: "transformer_result \<Rightarrow> transformer" where
  "async_transformer result b = Inr (Awaitable (Inr result))"

definition plain_transformer :: "transformer_result \<Rightarrow> transformer" where
  "plain_transformer result b = Inr (Plain result)"

text \<open>Whether the loop of the tree builder passes over a raw block.\<close>

definition is_skipped :: "converter \<Rightarrow> block \<Rightarrow> bool" where
  "is_skipped self b =
     (case block_type b of None \<Rightarrow> False | Some ty \<Rightarrow> skipped (config self) ty)"


section \<open>Evaluation and basic facts\<close>

lemmas assemble_defs =
  to_markdown_string_def own_fragment_phase_def children_phase_def child_call_def
  quote_lines_def dict_append_def dict_get_def dict_has_def dict_update_def
  strip_def lstrip_def rstrip_def is_space_def NL_def TAB_def reference_md_def
  default_config_def separating_config_def leaf_paragraph_def node_over_paragraph_def
  hello_and_divider_def

lemmas render_defs =
  block_to_markdown_def default_render_def handle_synced_block_def render_span_def
  annotate_plain_text_def bind_def get_or_def subscript_def str_or_def raw_as_md_def
  VALID_BLOCK_TYPES_def new_converter_def set_custom_transformer_def empty_block_def
  plain_span_def no_children_def widget_block_def async_transformer_def plain_transformer_def await_def

lemma new_converter_sel:
  "config (new_converter cfg f) = cfg"
  "custom_transformers (new_converter cfg f) = (\<lambda>ty. None)"
  "md (new_converter cfg f) = reference_md"
  "get_block_children (new_converter cfg f) = f"
  by (simp_all add: new_converter_def)

text \<open>The loop over a list is the loop over its second part, started where the first ends.\<close>

lemma to_markdown_loop_append:
  "to_markdown_loop m cfg (xs @ ys) pid lvl out =
   to_markdown_loop m cfg ys pid lvl (to_markdown_loop m cfg xs pid lvl out)"
proof (induction xs arbitrary: out)
  case Nil
  show ?case by simp
next
  case (Cons x xs)
  show ?case by (cases x) (simp add: Cons.IH)
qed

text \<open>Raw blocks handed to the assembler leave the output as it is.\<close>

lemma raw_blocks_assemble_to_nothing:
  "to_markdown_loop m cfg (map raw_as_md bs) pid lvl out = out"
  by (induction bs) (simp_all add: raw_as_md_def own_fragment_phase_def)

section \<open>The inline text of a block (C1)\<close>

text \<open>
  C1 says that a text-bearing block whose spans carry no link, no equation marker and
  no style flag renders to the concatenation of the spans' plain text. The code does not
  do so: for the paragraph with the single plain span \<open>Hello\<close> the renderer reaches the
  call of \<open>annotate_plain_text\<close>, which the class does not define, and raises
  \<open>AttributeError\<close> where the claim has the string \<open>Hello\<close>.
\<close>

theorem plain_paragraph_raises_attribute_error:
  "block_to_markdown (new_converter default_config no_children) hello_paragraph
     = Inl (AttributeError ''annotate_plain_text'')"
  by (simp add: hello_paragraph_def render_defs)

section \<open>A synced block that names itself as its source (C4)\<close>

lemma cyclic_render:
  "block_to_markdown (new_converter default_config cyclic_children)
     (self_synced\<lparr>has_children := True\<rparr>) = Inr (FMap [])"
  by (simp add: self_synced_def cyclic_children_def render_defs to_markdown_string_def
       own_fragment_phase_def)

lemma cyclic_node:
  "build_node (new_converter default_config cyclic_children)
     (self_synced\<lparr>has_children := True\<rparr>) ''synced_block'' tp
   = Inr (MdBlock ''synced_block'' ''A'' (FMap []) [], Some [self_synced\<lparr>has_children := True\<rparr>])"
  unfolding build_node_def cyclic_render
  by (simp add: self_synced_def cyclic_children_def bind_def new_converter_def empty_block_def)

lemma cyclic_build_never_returns:
  "blocks_to_markdown (new_converter default_config cyclic_children) fuel
     [self_synced\<lparr>has_children := True\<rparr>] tp acc = None"
proof (induction fuel arbitrary: acc)
  case 0
  show ?case by simp
next
  case (Suc n)
  have ty: "block_type (self_synced\<lparr>has_children := True\<rparr>) = Some ''synced_block''"
    by (simp add: self_synced_def empty_block_def)
  have ns: "\<not> skipped (config (new_converter default_config cyclic_children)) ''synced_block''"
    by (simp add: skipped_def)
  show ?case
    by (simp add: ty ns cyclic_node Suc.IH)
qed

text \<open>
  C4 says that for a synced block \<open>A\<close> that syncs from \<open>A\<close> itself the resolution ends
  within depth 3 and yields the empty string, without unbounded recursion and without
  failure of the conversion. The code does not do so. With a source reference,
  \<open>handle_synced_block\<close> returns the dictionary of \<open>to_markdown_string\<close>: for \<open>A\<close>
  without children the own fragment is the empty dictionary, not the empty string; the
  depth it tests is always 0, since nothing calls it with another depth. And when the
  children fetched for \<open>A\<close> contain \<open>A\<close> again, the recursion of the tree builder is not
  bounded by that depth: the conversion of the page returns for no amount of fuel.
\<close>

theorem self_synced_block_yields_dictionary:
  "block_to_markdown (new_converter default_config no_children) self_synced = Inr (FMap [])
   \<and> page_to_markdown (new_converter default_config cyclic_children) fuel ''page'' None = None"
proof
  show "block_to_markdown (new_converter default_config no_children) self_synced = Inr (FMap [])"
    by (simp add: self_synced_def render_defs to_markdown_string_def)
  have "cyclic_children ''page'' None = Inr [self_synced\<lparr>has_children := True\<rparr>]"
    by (simp add: cyclic_children_def)
  then show "page_to_markdown (new_converter default_config cyclic_children) fuel ''page'' None = None"
    by (simp add: page_to_markdown_def new_converter_sel cyclic_build_never_returns)
qed

section \<open>The children of a quote (C6)\<close>

text \<open>
  C6 says that for a quote node with children, under the root identifier or any other,
  the assembler quotes the lines of the text that the recursive result holds for the
  current document identifier. The code does not do so under an identifier other than
  \<open>parent\<close>: it always quotes the text stored under the key \<open>parent\<close>. For a quote
  \<open>q\<close> over a paragraph \<open>x\<close> under the identifier \<open>Sub\<close> the children's text is lost
  and a bare quote marker is appended, while under \<open>parent\<close> the lines of the
  children's text are quoted.
\<close>

theorem quote_under_child_document_loses_children:
  "to_markdown_string reference_md default_config [node_over_paragraph ''quote'' ''q'' ''x''] ''Sub'' 0
     = [(''Sub'', ''q'' @ NL @ ''>'' @ NL)]
   \<and> to_markdown_string reference_md default_config [node_over_paragraph ''quote'' ''q'' ''x''] ''parent'' 0
     = [(''parent'', ''q'' @ NL @ ''>'' @ NL @ ''> x'' @ NL @ ''>'' @ NL @ ''>'' @ NL)]"
  by (simp add: assemble_defs)

section \<open>Append-only documents (C9)\<close>

text \<open>
  C9 says that during one call of \<open>to_markdown_string\<close> the text of every document
  identifier only grows. The code does not do so when child pages are separated: the
  dictionary of a child page is merged with \<open>update\<close>, which replaces the text of a key
  that is already there. After a first child page \<open>T\<close> over a paragraph \<open>a\<close> the
  document \<open>T\<close> holds the text of \<open>a\<close>; after a second child page \<open>T\<close> over a paragraph
  \<open>b\<close> it holds the text of \<open>b\<close> alone.
\<close>

theorem separated_child_page_replaces_text:
  "to_markdown_string reference_md separating_config
      [node_over_paragraph ''child_page'' ''T'' ''a''] ''parent'' 0
     = [(''T'', NL @ ''a'' @ NL @ NL)]
   \<and> to_markdown_string reference_md separating_config
      [node_over_paragraph ''child_page'' ''T'' ''a'', node_over_paragraph ''child_page'' ''T'' ''b'']
      ''parent'' 0
     = [(''T'', NL @ ''b'' @ NL @ NL)]"
  by (simp add: assemble_defs)

section \<open>Blocks of an unknown type (C2)\<close>










section \<open>Custom transformers (C3, C10)\<close>



text \<open>
  A plain transformer, of the type the registry is declared with, returns its string
  where the renderer expects an awaitable: the \<open>await\<close> raises \<open>TypeError\<close>.
\<close>

lemma plain_transformer_is_not_awaitable:
  "block_to_markdown
     (set_custom_transformer (new_converter default_config no_children) ''paragraph''
        (Some (plain_transformer (RStr ''custom''))))
     hello_paragraph
   = Inl (TypeError ''object can not be used in await expression'')"
  by (simp add: hello_paragraph_def render_defs)

text \<open>
  C3, as stated, holds for every block whose type has a registered transformer. The
  check of the type against \<open>VALID_BLOCK_TYPES\<close> comes before the look-up in the
  registry: a transformer registered for a type outside the enumeration is never
  called, and the block raises the invalid-type error. The transformer here is a
  coroutine function, so that nothing but the type stands in its way.
\<close>

theorem transformer_for_unknown_type_raises:
  "block_to_markdown
     (set_custom_transformer (new_converter default_config no_children) ''widget''
        (Some (async_transformer (RStr ''X''))))
     widget_block
   = Inl (ValueError ''Invalid block type: widget'')"
  by (simp add: render_defs)

text \<open>
  C3, amended: for every block whose type is in \<open>VALID_BLOCK_TYPES\<close> and has a
  registered transformer that is not \<open>None\<close> and whose call on the block returns an
  awaitable, \<open>block_to_markdown\<close> returns exactly the awaited result when that result
  is a string and the empty string when it is not a string (an exception raised while
  awaiting is passed on); the outcome depends on nothing but the transformer, so the
  default rendering has no part in it. Nothing is said of a transformer whose call
  returns its result without an awaitable.
\<close>

theorem registered_transformer_replaces_rendering:
  assumes "block_type b = Some ty" and "ty \<in> set VALID_BLOCK_TYPES"
    and "custom_transformers self ty = Some (Some f)"
    and "f b = Inr (Awaitable r)"
  shows "block_to_markdown self b =
     (case r of Inl e \<Rightarrow> Inl e | Inr (RStr s) \<Rightarrow> Inr (FStr s) | Inr other \<Rightarrow> Inr (FStr []))"
  using assms
  by (simp add: block_to_markdown_def bind_def await_def
        split: sum.splits transformer_result.splits)

text \<open>
  The witness registers coroutine transformers for the paragraph \<open>Hello\<close>, whose
  default rendering raises: one with the string \<open>custom\<close>, one with \<open>None\<close>.
\<close>

theorem registered_transformer_replaces_rendering_witness:
  "block_type hello_paragraph = Some ''paragraph'' \<and> ''paragraph'' \<in> set VALID_BLOCK_TYPES
   \<and> custom_transformers
        (set_custom_transformer (new_converter default_config no_children) ''paragraph''
           (Some (async_transformer (RStr ''custom'')))) ''paragraph''
       = Some (Some (async_transformer (RStr ''custom'')))
   \<and> async_transformer (RStr ''custom'') hello_paragraph = Inr (Awaitable (Inr (RStr ''custom'')))
   \<and> block_to_markdown
        (set_custom_transformer (new_converter default_config no_children) ''paragraph''
           (Some (async_transformer (RStr ''custom'')))) hello_paragraph
       = Inr (FStr ''custom'')
   \<and> custom_transformers
        (set_custom_transformer (new_converter default_config no_children) ''paragraph''
           (Some (async_transformer RNone))) ''paragraph''
       = Some (Some (async_transformer RNone))
   \<and> async_transformer RNone hello_paragraph = Inr (Awaitable (Inr RNone))
   \<and> block_to_markdown
        (set_custom_transformer (new_converter default_config no_children) ''paragraph''
           (Some (async_transformer RNone))) hello_paragraph
       = Inr (FStr [])"
proof -
  have h1: "block_type hello_paragraph = Some ''paragraph''"
    by (simp add: hello_paragraph_def empty_block_def)
  have h2: "''paragraph'' \<in> set VALID_BLOCK_TYPES"
    by (simp add: VALID_BLOCK_TYPES_def)
  have h3: "custom_transformers
        (set_custom_transformer (new_converter default_config no_children) ''paragraph''
           (Some (async_transformer result))) ''paragraph''
       = Some (Some (async_transformer result))" for result
    by (simp add: set_custom_transformer_def)
  have h4: "async_transformer result hello_paragraph = Inr (Awaitable (Inr result))" for result
    by (simp add: async_transformer_def)
  show ?thesis
    using h1 h2 h3 h4
      registered_transformer_replaces_rendering[OF h1 h2 h3 h4, of "RStr ''custom''"]
      registered_transformer_replaces_rendering[OF h1 h2 h3 h4, of RNone]
    by simp
qed



section \<open>Blocks the tree builder passes over (C8)\<close>

lemma loop_filter:
  "blocks_loop self n blocks tp acc =
   blocks_loop self n (filter (\<lambda>b. \<not> is_skipped self b) blocks) tp acc"
proof (induction blocks arbitrary: acc)
  case Nil
  show ?case by simp
next
  case (Cons x xs)
  show ?case
  proof (cases "is_skipped self x")
    case True
    then obtain ty where "block_type x = Some ty" "skipped (config self) ty"
      by (auto simp: is_skipped_def split: option.splits)
    with True show ?thesis by (simp add: Cons.IH)
  next
    case False
    then have ns: "\<And>ty. block_type x = Some ty \<Longrightarrow> \<not> skipped (config self) ty"
      by (simp add: is_skipped_def)
    from False show ?thesis
      by (auto simp: ns Cons.IH split: option.splits sum.splits prod.splits)
  qed
qed

lemma build_filter:
  "blocks_to_markdown self fuel blocks tp acc =
   blocks_to_markdown self fuel (filter (\<lambda>b. \<not> is_skipped self b) blocks) tp acc"
proof (cases fuel)
  case 0
  then show ?thesis by simp
next
  case (Suc n)
  have "blocks_loop self n blocks tp acc =
        blocks_loop self n (filter (\<lambda>b. \<not> is_skipped self b) blocks) tp acc"
    by (rule loop_filter)
  moreover have "blocks_loop self n [] tp acc = Some (Inr acc)" by simp
  ultimately show ?thesis using Suc
    by (cases "filter (\<lambda>b. \<not> is_skipped self b) blocks = []") (auto split: if_splits)
qed

lemma build_node_shape:
  "build_node self b ty tp = Inr (node, k) \<Longrightarrow> md_type node = ty \<and> md_children node = []"
  by (auto simp: build_node_def bind_def split: if_splits sum.splits)

lemma loop_shape:
  "blocks_loop self n blocks tp acc = Some (Inr r) \<Longrightarrow>
   \<exists>new. r = acc @ new \<and>
     (\<forall>node \<in> set new. \<not> skipped (config self) (md_type node) \<and> md_children node = [])"
proof (induction blocks arbitrary: acc)
  case Nil
  then show ?case by simp
next
  case (Cons x xs)
  from Cons.prems obtain ty where ty: "block_type x = Some ty"
    by (cases "block_type x") auto
  show ?case
  proof (cases "skipped (config self) ty")
    case True
    with Cons.prems ty have "blocks_loop self n xs tp acc = Some (Inr r)" by simp
    then show ?thesis by (rule Cons.IH)
  next
    case False
    with Cons.prems ty obtain node k where
      bn: "build_node self x ty tp = Inr (node, k)" and
      rest: "blocks_loop self n xs tp (acc @ [node]) = Some (Inr r)"
      by (auto split: sum.splits option.splits prod.splits)
    from Cons.IH[OF rest] obtain new where
      new: "r = (acc @ [node]) @ new"
        "\<forall>nd \<in> set new. \<not> skipped (config self) (md_type nd) \<and> md_children nd = []"
      by blast
    from build_node_shape[OF bn] False
    have "\<not> skipped (config self) (md_type node) \<and> md_children node = []" by simp
    with new have "r = acc @ (node # new) \<and>
       (\<forall>nd \<in> set (node # new). \<not> skipped (config self) (md_type nd) \<and> md_children nd = [])"
      by simp
    then show ?thesis by blast
  qed
qed

lemma build_shape:
  assumes "blocks_to_markdown self fuel blocks tp acc = Some (Inr r)"
  shows "\<exists>new. r = acc @ new \<and>
     (\<forall>node \<in> set new. \<not> skipped (config self) (md_type node) \<and> md_children node = [])"
proof (cases fuel)
  case 0
  with assms show ?thesis by simp
next
  case (Suc n)
  show ?thesis
  proof (cases "blocks = []")
    case True
    with assms Suc show ?thesis by simp
  next
    case False
    with assms Suc have "blocks_loop self n blocks tp acc = Some (Inr r)" by simp
    then show ?thesis by (rule loop_shape)
  qed
qed

text \<open>
  C8: for every list of blocks, the blocks of type \<open>unsupported\<close> and, when
  \<open>parse_child_pages\<close> is false, those of type \<open>child_page\<close> are omitted by the tree
  builder. The outcome of \<open>blocks_to_markdown\<close> (its nodes, its exception, or its not
  returning) is the outcome on the list without these blocks, so nothing of them is
  rendered or fetched; and in a returned list every node added has a type that is not
  omitted and has no children, so that no such block stands anywhere in what the
  assembler receives.
\<close>

theorem skipped_blocks_leave_no_trace:
  "blocks_to_markdown self fuel blocks tp acc =
     blocks_to_markdown self fuel (filter (\<lambda>b. \<not> is_skipped self b) blocks) tp acc
   \<and> (blocks_to_markdown self fuel blocks tp acc = Some (Inr r) \<longrightarrow>
        (\<exists>new. r = acc @ new \<and>
           (\<forall>node \<in> set new. \<not> skipped (config self) (md_type node) \<and> md_children node = [])))"
  using build_filter build_shape by blast

theorem skipped_blocks_leave_no_trace_witness:
  "filter (\<lambda>b. \<not> is_skipped (new_converter default_config no_children) b)
     [empty_block ''unsupported'' ''u1'', empty_block ''divider'' ''d1'']
     = [empty_block ''divider'' ''d1'']
   \<and> blocks_to_markdown (new_converter default_config no_children) (Suc 0)
       [empty_block ''unsupported'' ''u1'', empty_block ''divider'' ''d1''] None []
     = blocks_to_markdown (new_converter default_config no_children) (Suc 0)
       [empty_block ''divider'' ''d1''] None []
   \<and> blocks_to_markdown (new_converter default_config no_children) (Suc 0)
       [empty_block ''unsupported'' ''u1'', empty_block ''divider'' ''d1''] None []
     = Some (Inr [MdBlock ''divider'' ''d1'' (FStr ''---'') []])
   \<and> \<not> skipped default_config ''divider''"
proof -
  have f: "filter (\<lambda>b. \<not> is_skipped (new_converter default_config no_children) b)
     [empty_block ''unsupported'' ''u1'', empty_block ''divider'' ''d1'']
     = [empty_block ''divider'' ''d1'']"
    by (simp add: is_skipped_def skipped_def empty_block_def new_converter_def)
  have e: "blocks_to_markdown (new_converter default_config no_children) (Suc 0)
       [empty_block ''divider'' ''d1''] None []
     = Some (Inr [MdBlock ''divider'' ''d1'' (FStr ''---'') []])"
    by (simp add: skipped_def build_node_def render_defs reference_md_def)
  have s: "\<not> skipped default_config ''divider''"
    by (simp add: skipped_def)
  show ?thesis
    using skipped_blocks_leave_no_trace[where self = "new_converter default_config no_children"
        and fuel = "Suc 0" and tp = None and acc = "[]"
        and blocks = "[empty_block ''unsupported'' ''u1'', empty_block ''divider'' ''d1'']"
        and r = "[MdBlock ''divider'' ''d1'' (FStr ''---'') []]"]
    unfolding f e using s by simp
qed

section \<open>The own fragment of a node (C7)\<close>

lemma children_phase_parent:
  "ty \<noteq> ''toggle'' \<Longrightarrow> ty \<noteq> ''child_page'' \<Longrightarrow>
   children_phase m cfg ty p pid out ms = children_phase m cfg ty q pid out ms"
  by (simp add: children_phase_def split del: if_split cong: if_cong)

lemma child_call_parent:
  "ty \<noteq> ''child_page'' \<Longrightarrow> child_call ty p pid lvl = child_call ty q pid lvl"
  by (simp add: child_call_def split del: if_split cong: if_cong)

lemma own_empty: "own_fragment_phase m ty (FStr []) pid lvl out = out"
  by (simp add: own_fragment_phase_def)

lemma own_nonempty:
  "s \<noteq> [] \<Longrightarrow> ty \<noteq> ''toggle'' \<Longrightarrow> ty \<noteq> ''child_page'' \<Longrightarrow>
   own_fragment_phase m ty (FStr s) pid lvl out =
   dict_append out pid
     (if ty \<in> {''to_do'', ''bulleted_list_item'', ''numbered_list_item'', ''quote''}
      then md_add_tab_space m s lvl @ NL
      else NL @ md_add_tab_space m s lvl @ NL @ NL)"
  by (simp add: own_fragment_phase_def)

text \<open>
  C7, as stated, gives the root entry of a page with the paragraph \<open>Hello\<close> and a
  divider as two newlines, \<open>Hello\<close>, three newlines, the rule, two newlines. The code
  puts one newline before the fragment of a block, not two.
\<close>

theorem hello_divider_has_one_leading_newline:
  "to_markdown_string reference_md default_config hello_and_divider ''parent'' 0
     = [(''parent'', NL @ ''Hello'' @ NL @ NL @ NL @ ''---'' @ NL @ NL)]
   \<and> to_markdown_string reference_md default_config hello_and_divider ''parent'' 0
     \<noteq> [(''parent'', NL @ NL @ ''Hello'' @ NL @ NL @ NL @ ''---'' @ NL @ NL)]"
  by (simp add: assemble_defs)

text \<open>
  C7, amended: for every node whose own fragment is a non-empty string and whose type
  is not toggle or child_page, the loop first appends to the current document the
  fragment indented by \<open>add_tab_space\<close> for the nesting level: followed by a single
  newline if the type is one of to_do, bulleted_list_item, numbered_list_item and quote;
  preceded by one newline and followed by two newlines for every other type. It then
  goes on as for the same node with an empty fragment. In particular, when
  \<open>add_tab_space\<close> leaves a text at level 0 as it is, a root page with the paragraph
  \<open>Hello\<close> followed by a divider yields the root entry made of one newline, \<open>Hello\<close>,
  three newlines, the rule and two newlines: the paragraph's text precedes the divider
  and a blank line separates them.
\<close>

theorem own_fragment_is_appended:
  "(s \<noteq> [] \<and> ty \<noteq> ''toggle'' \<and> ty \<noteq> ''child_page'' \<longrightarrow>
      to_markdown_loop m cfg (MdBlock ty bid (FStr s) kids # rest) pid lvl out =
      to_markdown_loop m cfg (MdBlock ty bid (FStr []) kids # rest) pid lvl
        (dict_append out pid
           (if ty \<in> {''to_do'', ''bulleted_list_item'', ''numbered_list_item'', ''quote''}
            then md_add_tab_space m s lvl @ NL
            else NL @ md_add_tab_space m s lvl @ NL @ NL)))
   \<and> (md_add_tab_space m ''Hello'' 0 = ''Hello'' \<and> md_add_tab_space m ''---'' 0 = ''---'' \<longrightarrow>
      to_markdown_string m cfg hello_and_divider ''parent'' 0
        = [(''parent'', NL @ ''Hello'' @ NL @ NL @ NL @ ''---'' @ NL @ NL)])"
proof (intro conjI impI)
  assume a: "s \<noteq> [] \<and> ty \<noteq> ''toggle'' \<and> ty \<noteq> ''child_page''"
  then show "to_markdown_loop m cfg (MdBlock ty bid (FStr s) kids # rest) pid lvl out =
      to_markdown_loop m cfg (MdBlock ty bid (FStr []) kids # rest) pid lvl
        (dict_append out pid
           (if ty \<in> {''to_do'', ''bulleted_list_item'', ''numbered_list_item'', ''quote''}
            then md_add_tab_space m s lvl @ NL
            else NL @ md_add_tab_space m s lvl @ NL @ NL))"
    by (simp add: own_empty own_nonempty
          children_phase_parent[where p = "FStr s" and q = "FStr []"]
          child_call_parent[where p = "FStr s" and q = "FStr []"]
          split del: if_split cong: if_cong)
next
  assume "md_add_tab_space m ''Hello'' 0 = ''Hello'' \<and> md_add_tab_space m ''---'' 0 = ''---''"
  then show "to_markdown_string m cfg hello_and_divider ''parent'' 0
        = [(''parent'', NL @ ''Hello'' @ NL @ NL @ NL @ ''---'' @ NL @ NL)]"
    by (simp add: hello_and_divider_def to_markdown_string_def own_fragment_phase_def
          dict_append_def dict_get_def)
qed

theorem own_fragment_is_appended_witness:
  "''item'' \<noteq> [] \<and> ''bulleted_list_item'' \<noteq> ''toggle'' \<and> ''bulleted_list_item'' \<noteq> ''child_page''
   \<and> to_markdown_loop reference_md default_config
        [MdBlock ''bulleted_list_item'' ''b1'' (FStr ''item'') []] ''parent'' (Suc (Suc 0))
        [(''parent'', ''text'')]
       = [(''parent'', ''text'' @ TAB @ TAB @ ''item'' @ NL)]
   \<and> md_add_tab_space reference_md ''Hello'' 0 = ''Hello''
   \<and> md_add_tab_space reference_md ''---'' 0 = ''---''
   \<and> to_markdown_string reference_md default_config hello_and_divider ''parent'' 0
       = [(''parent'', NL @ ''Hello'' @ NL @ NL @ NL @ ''---'' @ NL @ NL)]"
proof -
  have h: "md_add_tab_space reference_md ''Hello'' 0 = ''Hello''"
          "md_add_tab_space reference_md ''---'' 0 = ''---''"
    by (simp_all add: reference_md_def)
  have t: "md_add_tab_space reference_md ''item'' (Suc (Suc 0)) = TAB @ TAB @ ''item''"
    by (simp add: reference_md_def)
  show ?thesis
    using h own_fragment_is_appended[where m = reference_md and cfg = default_config
        and s = "''item''" and ty = "''bulleted_list_item''" and bid = "''b1''" and kids = "[]"
        and rest = "[]" and pid = "''parent''" and lvl = "Suc (Suc 0)"
        and out = "[(''parent'', ''text'')]"]
    by (simp add: t own_empty dict_append_def dict_get_def)
qed

section \<open>Child pages, split or inlined (C5)\<close>

lemma child_page_step:
  assumes "kids \<noteq> []"
  shows "to_markdown_loop m cfg [MdBlock ''child_page'' bid (FStr t) kids] pid lvl out =
     (if separate_child_page cfg then dict_update out (to_markdown_string m cfg kids t 0)
      else if dict_has (to_markdown_string m cfg kids t 0) t
           then dict_append (dict_append out pid []) pid
                  (NL @ t @ NL @ dict_get (to_markdown_string m cfg kids t 0) t [])
           else dict_append out pid [])"
  using assms
  by (simp add: own_fragment_phase_def children_phase_def child_call_def
        to_markdown_string_def Let_def)

text \<open>
  C5, as stated, gives two entries, the root and the child, whenever child pages are
  separated. The branch of a separated child page merges the child's dictionary and
  does not create the root key: for a tree that is the child page \<open>Sub\<close> alone, over a
  paragraph \<open>Body\<close>, the separated result has the single entry \<open>Sub\<close> and no root
  entry.
\<close>

theorem lone_child_page_split_has_no_root_entry:
  "to_markdown_string reference_md separating_config
     [node_over_paragraph ''child_page'' ''Sub'' ''Body''] ''parent'' 0
   = [(''Sub'', NL @ ''Body'' @ NL @ NL)]"
  by (simp add: assemble_defs)

text \<open>
  C5, amended: take an input tree that is a list \<open>pre\<close> of top-level nodes followed by
  one child_page node with title \<open>t\<close>, not the root identifier, whose children
  assemble under \<open>t\<close> to the single entry \<open>c\<close>, and let \<open>pre\<close> assemble to the single
  root entry \<open>r\<close>. With \<open>separate_child_page\<close> true the result has exactly the two
  entries root \<open>r\<close> and \<open>t\<close> with \<open>c\<close>; with it false the result is the single root
  entry \<open>r\<close> followed by a newline, the title, a newline and \<open>c\<close>. Without other
  top-level nodes the separated result is the entry of \<open>t\<close> alone, and the inlined
  result the root entry with the title and \<open>c\<close>.
\<close>

theorem child_page_split_or_inlined:
  assumes kT: "to_markdown_string m (cfg\<lparr>separate_child_page := True\<rparr>) kids t 0 = [(t, c)]"
      and kF: "to_markdown_string m (cfg\<lparr>separate_child_page := False\<rparr>) kids t 0 = [(t, c)]"
      and pT: "to_markdown_string m (cfg\<lparr>separate_child_page := True\<rparr>) pre ''parent'' 0
                 = [(''parent'', r)]"
      and pF: "to_markdown_string m (cfg\<lparr>separate_child_page := False\<rparr>) pre ''parent'' 0
                 = [(''parent'', r)]"
      and t: "t \<noteq> ''parent''"
  shows "to_markdown_string m (cfg\<lparr>separate_child_page := True\<rparr>)
           (pre @ [MdBlock ''child_page'' bid (FStr t) kids]) ''parent'' 0
           = [(''parent'', r), (t, c)]
       \<and> to_markdown_string m (cfg\<lparr>separate_child_page := False\<rparr>)
           (pre @ [MdBlock ''child_page'' bid (FStr t) kids]) ''parent'' 0
           = [(''parent'', r @ NL @ t @ NL @ c)]
       \<and> to_markdown_string m (cfg\<lparr>separate_child_page := True\<rparr>)
           [MdBlock ''child_page'' bid (FStr t) kids] ''parent'' 0 = [(t, c)]
       \<and> to_markdown_string m (cfg\<lparr>separate_child_page := False\<rparr>)
           [MdBlock ''child_page'' bid (FStr t) kids] ''parent'' 0
           = [(''parent'', NL @ t @ NL @ c)]"
proof (intro conjI)
  have k: "kids \<noteq> []" using kT by (auto simp: to_markdown_string_def)
  show "to_markdown_string m (cfg\<lparr>separate_child_page := True\<rparr>)
           (pre @ [MdBlock ''child_page'' bid (FStr t) kids]) ''parent'' 0
           = [(''parent'', r), (t, c)]"
    using pT t unfolding to_markdown_string_def[of _ _ "pre @ _"] to_markdown_loop_append
      child_page_step[OF k] kT
    by (simp add: to_markdown_string_def dict_update_def)
  show "to_markdown_string m (cfg\<lparr>separate_child_page := False\<rparr>)
           (pre @ [MdBlock ''child_page'' bid (FStr t) kids]) ''parent'' 0
           = [(''parent'', r @ NL @ t @ NL @ c)]"
    using pF t unfolding to_markdown_string_def[of _ _ "pre @ _"] to_markdown_loop_append
      child_page_step[OF k] kF
    by (simp add: to_markdown_string_def dict_has_def dict_append_def dict_get_def)
  show "to_markdown_string m (cfg\<lparr>separate_child_page := True\<rparr>)
           [MdBlock ''child_page'' bid (FStr t) kids] ''parent'' 0 = [(t, c)]"
    unfolding to_markdown_string_def[of _ _ "[_]"] child_page_step[OF k] kT
    by (simp add: dict_update_def)
  show "to_markdown_string m (cfg\<lparr>separate_child_page := False\<rparr>)
           [MdBlock ''child_page'' bid (FStr t) kids] ''parent'' 0
           = [(''parent'', NL @ t @ NL @ c)]"
    unfolding to_markdown_string_def[of _ _ "[_]"] child_page_step[OF k] kF
    by (simp add: dict_has_def dict_append_def dict_get_def)
qed

theorem child_page_split_or_inlined_witness:
  "to_markdown_string reference_md (default_config\<lparr>separate_child_page := True\<rparr>)
      [leaf_paragraph ''Body''] ''Sub'' 0 = [(''Sub'', NL @ ''Body'' @ NL @ NL)]
   \<and> to_markdown_string reference_md (default_config\<lparr>separate_child_page := False\<rparr>)
      [leaf_paragraph ''Body''] ''Sub'' 0 = [(''Sub'', NL @ ''Body'' @ NL @ NL)]
   \<and> to_markdown_string reference_md (default_config\<lparr>separate_child_page := True\<rparr>)
      [leaf_paragraph ''Intro''] ''parent'' 0 = [(''parent'', NL @ ''Intro'' @ NL @ NL)]
   \<and> to_markdown_string reference_md (default_config\<lparr>separate_child_page := False\<rparr>)
      [leaf_paragraph ''Intro''] ''parent'' 0 = [(''parent'', NL @ ''Intro'' @ NL @ NL)]
   \<and> ''Sub'' \<noteq> ''parent''
   \<and> to_markdown_string reference_md (default_config\<lparr>separate_child_page := True\<rparr>)
      ([leaf_paragraph ''Intro''] @ [MdBlock ''child_page'' ''c1'' (FStr ''Sub'') [leaf_paragraph ''Body'']])
      ''parent'' 0
     = [(''parent'', NL @ ''Intro'' @ NL @ NL), (''Sub'', NL @ ''Body'' @ NL @ NL)]
   \<and> to_markdown_string reference_md (default_config\<lparr>separate_child_page := False\<rparr>)
      ([leaf_paragraph ''Intro''] @ [MdBlock ''child_page'' ''c1'' (FStr ''Sub'') [leaf_paragraph ''Body'']])
      ''parent'' 0
     = [(''parent'', (NL @ ''Intro'' @ NL @ NL) @ NL @ ''Sub'' @ NL @ (NL @ ''Body'' @ NL @ NL))]"
proof -
  have kT: "to_markdown_string reference_md (default_config\<lparr>separate_child_page := True\<rparr>)
      [leaf_paragraph ''Body''] ''Sub'' 0 = [(''Sub'', NL @ ''Body'' @ NL @ NL)]"
    by (simp add: assemble_defs)
  have kF: "to_markdown_string reference_md (default_config\<lparr>separate_child_page := False\<rparr>)
      [leaf_paragraph ''Body''] ''Sub'' 0 = [(''Sub'', NL @ ''Body'' @ NL @ NL)]"
    by (simp add: assemble_defs)
  have pT: "to_markdown_string reference_md (default_config\<lparr>separate_child_page := True\<rparr>)
      [leaf_paragraph ''Intro''] ''parent'' 0 = [(''parent'', NL @ ''Intro'' @ NL @ NL)]"
    by (simp add: assemble_defs)
  have pF: "to_markdown_string reference_md (default_config\<lparr>separate_child_page := False\<rparr>)
      [leaf_paragraph ''Intro''] ''parent'' 0 = [(''parent'', NL @ ''Intro'' @ NL @ NL)]"
    by (simp add: assemble_defs)
  have t: "''Sub'' \<noteq> ''parent''" by simp
  from child_page_split_or_inlined[OF kT kF pT pF t, where bid = "''c1''"] kT kF pT pF t
  show ?thesis by blast
qed

end
